theory Spec2Isabelle
  imports Complex_Main
begin

section \<open>Data shapes\<close>

text \<open>
  The application keeps three kinds of objects (\<^verbatim>\<open>script.js\<close>, "Data Shapes"): slots, tickets
  and one settings object. A JavaScript string is a \<^typ>\<open>string\<close> (a list of code units, of
  which HOL's \<^typ>\<open>char\<close> has the first 256); a JavaScript number that holds whole minutes,
  an instant or a head count is an \<^typ>\<open>int\<close>. The field \<^verbatim>\<open>id\<close> of a slot and of a ticket is
  written \<open>slot_id\<close> and \<open>ticket_id\<close>, since \<open>id\<close> is HOL's identity function, and the fields
  of the schedule carry the prefix \<open>sch\<close>, since \<open>end\<close> is a keyword.
\<close>

record slot =
  slot_id :: string
  label :: string
  startISO :: string
  endISO :: string

record ticket =
  ticket_id :: string
  name :: string
  contact :: string
  slotId :: string
  slotStartISO :: string
  slotEndISO :: string
  createdAtISO :: string
  notified :: bool

record schedule =
  sch_date :: string
  sch_start :: string
  sch_end :: string

record settings =
  eventTitle :: string
  location :: string
  slotMinutes :: int
  slotCapacity :: int
  reminderMinutesBefore :: int
  adminPin :: string
  schedule :: schedule

section \<open>String helpers of the runtime\<close>

definition dquote :: char where
  "dquote = CHR 0x22"

definition comma :: char where
  "comma = CHR '',''"

definition LF :: char where
  "LF = CHR 0x0A"


text \<open>\<^verbatim>\<open>xs.join(sep)\<close> on an array of strings.\<close>

fun join :: "string \<Rightarrow> string list \<Rightarrow> string" where
  "join sep [] = []"
| "join sep [x] = x"
| "join sep (x # y # ys) = x @ sep @ join sep (y # ys)"

text \<open>\<^verbatim>\<open>s.padStart(n, c)\<close> with a one-character filler.\<close>

definition padStart :: "nat \<Rightarrow> char \<Rightarrow> string \<Rightarrow> string" where
  "padStart n c s = replicate (n - length s) c @ s"

text \<open>\<^verbatim>\<open>String(n)\<close> for a non-negative whole number: its decimal digits.\<close>

definition digits :: string where
  "digits = ''0123456789''"

fun String_nat :: "nat \<Rightarrow> string" where
  "String_nat n =
     (if n < 10 then [digits ! n] else String_nat (n div 10) @ [digits ! (n mod 10)])"

text \<open>
  \<^verbatim>\<open>s.trim()\<close> removes white space and line terminators at both ends; of the code units
  below 256 these are tab, line feed, vertical tab, form feed, carriage return, space and
  the no-break space.
\<close>

definition is_space :: "char \<Rightarrow> bool" where
  "is_space c \<longleftrightarrow>
     c \<in> set [CHR 0x09, CHR 0x0A, CHR 0x0B, CHR 0x0C, CHR 0x0D, CHR 0x20, CHR 0xA0]"

definition trim :: "string \<Rightarrow> string" where
  "trim s = rev (dropWhile is_space (rev (dropWhile is_space s)))"

section \<open>Numbers of the runtime: the results of \<^verbatim>\<open>Math.random()\<close>\<close>

text \<open>
  \<^verbatim>\<open>Math.random()\<close> returns a Number, that is an IEEE 754 double, in \<open>[0, 1)\<close>. Every such
  double is \<open>m / 2 ^ p\<close> for a significand \<open>m\<close> below \<open>2 ^ 53\<close> and an exponent \<open>p\<close> of at most
  1074, and every such pair with \<open>m < 2 ^ p\<close> is a double in \<open>[0, 1)\<close>; the pair \<open>(m, p)\<close> stands
  for the double.
\<close>

type_synonym unit_double = "nat \<times> nat"


text \<open>The number of binary digits of a natural number.\<close>

fun bit_length :: "nat \<Rightarrow> nat" where
  "bit_length k = (if k = 0 then 0 else Suc (bit_length (k div 2)))"

declare bit_length.simps [simp del]

text \<open>
  Rounding to the nearest multiple of \<open>2 ^ s\<close>, a tie going to the multiple whose quotient
  is even: the rounding of IEEE 754 arithmetic.
\<close>

definition round_even :: "nat \<Rightarrow> nat \<Rightarrow> nat" where
  "round_even k s =
     (if s = 0 then k
      else if k mod 2 ^ s < 2 ^ (s - 1) \<or> (k mod 2 ^ s = 2 ^ (s - 1) \<and> even (k div 2 ^ s))
      then (k div 2 ^ s) * 2 ^ s
      else (k div 2 ^ s + 1) * 2 ^ s)"

text \<open>
  \<^verbatim>\<open>Math.floor(Math.random() * n)\<close> for a whole number \<open>n\<close> that is itself a double (here 26,
  10 and 1000). The exact product of the double \<open>m / 2 ^ p\<close> and \<open>n\<close> is \<open>m * n / 2 ^ p\<close>; the
  multiplication of doubles returns it rounded to 53 binary digits, and \<^verbatim>\<open>Math.floor\<close> of
  that is exact. The product is below \<open>2 ^ 63\<close>, so nothing overflows, and a product that
  needs rounding is far above the subnormal range.
\<close>

definition random_index :: "unit_double \<Rightarrow> nat \<Rightarrow> nat" where
  "random_index d n = round_even (fst d * n) (bit_length (fst d * n) - 53) div 2 ^ snd d"

section \<open>Identifier generator\<close>

text \<open>
  \<^verbatim>\<open>Math.random()\<close> is the only source of randomness. It is modelled as the sequence of
  its results: the call number \<open>n\<close> returns the double \<open>rnd n\<close>.
  \<^verbatim>\<open>alphabet[Math.floor(Math.random() * alphabet.length)]\<close> is \<open>pick\<close>; an index outside the
  string reads \<^verbatim>\<open>undefined\<close>, which \<^verbatim>\<open>join("")\<close> renders as the empty string.
\<close>

definition letters :: string where
  "letters = ''ABCDEFGHIJKLMNOPQRSTUVWXYZ''"

definition pick :: "string \<Rightarrow> unit_double \<Rightarrow> string" where
  "pick alphabet d =
     (if random_index d (length alphabet) < length alphabet
      then [alphabet ! random_index d (length alphabet)] else [])"

text \<open>
  One round of the \<^verbatim>\<open>do\<close> loop of \<^verbatim>\<open>randTicketId\<close>: five letters, then three digits, from
  eight consecutive calls of \<^verbatim>\<open>Math.random()\<close> starting with call number \<open>n\<close>.
\<close>

definition candidate :: "(nat \<Rightarrow> unit_double) \<Rightarrow> nat \<Rightarrow> string" where
  "candidate rnd n =
     concat (map (\<lambda>i. pick letters (rnd (n + i))) [0..<5]) @
     concat (map (\<lambda>i. pick digits (rnd (n + 5 + i))) [0..<3])"

text \<open>
  \<^verbatim>\<open>randTicketId(existing)\<close>: \<^verbatim>\<open>do { id = ... } while (existing.has(id))\<close>. The loop has no
  bound, so the function is partial: \<open>None\<close> is the run that never leaves the loop. The
  result carries the number of the next unused call of \<^verbatim>\<open>Math.random()\<close>.
\<close>

partial_function (option) randTicketId ::
  "(nat \<Rightarrow> unit_double) \<Rightarrow> nat \<Rightarrow> string set \<Rightarrow> (string \<times> nat) option" where
  "randTicketId rnd n existing =
     (if candidate rnd n \<in> existing then randTicketId rnd (n + 8) existing
      else Some (candidate rnd n, n + 8))"

declare randTicketId.simps [code]



section \<open>Slot builder\<close>

text \<open>
  The date library is outside the repository, so its three operations are parameters:
  \<open>parse\<close> is \<^verbatim>\<open>dayjs(text)\<close>, giving the instant in minutes or \<open>None\<close> for an invalid date,
  \<open>format_HHmm\<close> is \<^verbatim>\<open>.format("HH:mm")\<close> and \<open>toISOString\<close> is \<^verbatim>\<open>.toISOString()\<close>, both on an
  instant. With instants counted in minutes, \<^verbatim>\<open>t.add(slotMinutes, "minute")\<close> is
  \<open>t + slotMinutes\<close> and \<^verbatim>\<open>t.isBefore(end)\<close> is \<open>t < end\<close>; an invalid date is before nothing.
\<close>

definition slot_at ::
  "(int \<Rightarrow> string) \<Rightarrow> (int \<Rightarrow> string) \<Rightarrow> string \<Rightarrow> int \<Rightarrow> int \<Rightarrow> nat \<Rightarrow> slot" where
  "slot_at format_HHmm toISOString date m t idx =
     \<lparr> slot_id = date @ ''-'' @ padStart 3 (CHR ''0'') (String_nat idx),
       label = format_HHmm t @ ''-'' @ format_HHmm (t + m),
       startISO = toISOString t,
       endISO = toISOString (t + m) \<rparr>"

text \<open>
  The \<^verbatim>\<open>while (t.isBefore(end))\<close> loop with its variables \<open>t\<close>, \<open>idx\<close> and \<open>slots\<close>. It does not
  end when \<open>slotMinutes\<close> is not positive, so it is a partial function.
\<close>

partial_function (option) buildSlots_loop ::
  "(int \<Rightarrow> string) \<Rightarrow> (int \<Rightarrow> string) \<Rightarrow> string \<Rightarrow> int \<Rightarrow> int \<Rightarrow> int \<Rightarrow> nat \<Rightarrow> slot list
     \<Rightarrow> slot list option" where
  "buildSlots_loop format_HHmm toISOString date m e t idx slots =
     (if t < e
      then buildSlots_loop format_HHmm toISOString date m e (t + m) (Suc idx)
             (slots @ [slot_at format_HHmm toISOString date m t idx])
      else Some slots)"

declare buildSlots_loop.simps [code]

definition buildSlots ::
  "(string \<Rightarrow> int option) \<Rightarrow> (int \<Rightarrow> string) \<Rightarrow> (int \<Rightarrow> string) \<Rightarrow> settings
     \<Rightarrow> slot list option" where
  "buildSlots parse format_HHmm toISOString st =
     (case parse (sch_date (schedule st) @ '' '' @ sch_start (schedule st)) of
        None \<Rightarrow> Some []
      | Some s \<Rightarrow>
          (case parse (sch_date (schedule st) @ '' '' @ sch_end (schedule st)) of
             None \<Rightarrow> Some []
           | Some e \<Rightarrow>
               buildSlots_loop format_HHmm toISOString (sch_date (schedule st))
                 (slotMinutes st) e s 0 []))"

section \<open>Capacity counter\<close>

text \<open>\<^verbatim>\<open>capacityForSlot(tickets, slotId)\<close>: the number of tickets whose \<^verbatim>\<open>slotId\<close> is the given one.\<close>

definition capacityForSlot :: "ticket list \<Rightarrow> string \<Rightarrow> nat" where
  "capacityForSlot tickets sid = length (filter (\<lambda>t. slotId t = sid) tickets)"

text \<open>
  \<^verbatim>\<open>countsBySlot\<close> of the admin panel: a \<^verbatim>\<open>Map\<close> that first receives the key of every slot
  with the value 0 and is then bumped once per ticket, \<^verbatim>\<open>(m.get(t.slotId) || 0) + 1\<close>, where a
  missing key reads as 0.
\<close>

definition get_or_0 :: "(string \<rightharpoonup> nat) \<Rightarrow> string \<Rightarrow> nat" where
  "get_or_0 m k = (case m k of None \<Rightarrow> 0 | Some c \<Rightarrow> c)"

definition set_zero :: "slot \<Rightarrow> (string \<rightharpoonup> nat) \<Rightarrow> (string \<rightharpoonup> nat)" where
  "set_zero s m = m(slot_id s \<mapsto> 0)"

definition bump :: "ticket \<Rightarrow> (string \<rightharpoonup> nat) \<Rightarrow> (string \<rightharpoonup> nat)" where
  "bump t m = m(slotId t \<mapsto> get_or_0 m (slotId t) + 1)"

definition countsBySlot :: "ticket list \<Rightarrow> slot list \<Rightarrow> (string \<rightharpoonup> nat)" where
  "countsBySlot tickets slots = fold bump tickets (fold set_zero slots Map.empty)"

section \<open>Ticket registry: creation\<close>

text \<open>
  The state of the component \<^verbatim>\<open>App\<close> that \<^verbatim>\<open>createTicket\<close> reads and writes: the ticket list
  \<^verbatim>\<open>tickets\<close> and the three inputs of the form, \<^verbatim>\<open>name\<close>, \<^verbatim>\<open>contact\<close> and \<^verbatim>\<open>slotId\<close>. Every way
  out of the function shows one \<^verbatim>\<open>alert\<close>; the three that refuse are the errors of the
  function, and the design names their kinds: a missing slot and a blank name are
  validation errors, a full slot is a capacity error.
\<close>

record app =
  app_tickets :: "ticket list"
  app_name :: string
  app_contact :: string
  app_slotId :: string

datatype alert = InvalidSlot | NameRequired | SlotFull | Issued string

datatype error_kind = ValidationError | CapacityError

fun error_of :: "alert \<Rightarrow> error_kind option" where
  "error_of InvalidSlot = Some ValidationError"
| "error_of NameRequired = Some ValidationError"
| "error_of SlotFull = Some CapacityError"
| "error_of (Issued tid) = None"

text \<open>
  \<^verbatim>\<open>createTicket()\<close>. \<open>rnd\<close> and \<open>n\<close> are the random source and the number of its next call,
  \<open>now\<close> is \<^verbatim>\<open>new Date().toISOString()\<close>. The checks run in the order of the source: the slot is
  looked up first, the name is tested second, the capacity third. The result is \<open>None\<close> when
  the identifier generator does not return.
\<close>

definition createTicket ::
  "(nat \<Rightarrow> unit_double) \<Rightarrow> nat \<Rightarrow> string \<Rightarrow> settings \<Rightarrow> slot list \<Rightarrow> app \<Rightarrow> (alert \<times> app) option" where
  "createTicket rnd n now st slots a =
     (case find (\<lambda>s. slot_id s = app_slotId a) slots of
        None \<Rightarrow> Some (InvalidSlot, a)
      | Some sl \<Rightarrow>
          if trim (app_name a) = [] then Some (NameRequired, a)
          else if slotCapacity st \<le> int (capacityForSlot (app_tickets a) (app_slotId a))
          then Some (SlotFull, a)
          else
            (case randTicketId rnd n (ticket_id ` set (app_tickets a)) of
               None \<Rightarrow> None
             | Some (tid, n') \<Rightarrow>
                 Some (Issued tid,
                   a\<lparr> app_tickets := app_tickets a @
                        [\<lparr> ticket_id = tid, name = trim (app_name a),
                           contact = trim (app_contact a), slotId = slot_id sl,
                           slotStartISO = startISO sl, slotEndISO = endISO sl,
                           createdAtISO = now, notified = False \<rparr>],
                      app_name := [], app_contact := [] \<rparr>)))"

section \<open>Settings store\<close>

text \<open>
  \<^verbatim>\<open>updateSettings(partial)\<close> replaces the settings by \<^verbatim>\<open>{ ...prev, ...partial }\<close>. The partial
  update is an object with some of the settings' keys: a key it lacks is \<open>None\<close> here.
  The spread is shallow, so a \<^verbatim>\<open>schedule\<close> in the partial update replaces the whole schedule.
\<close>

record settings_partial =
  p_eventTitle :: "string option"
  p_location :: "string option"
  p_slotMinutes :: "int option"
  p_slotCapacity :: "int option"
  p_reminderMinutesBefore :: "int option"
  p_adminPin :: "string option"
  p_schedule :: "schedule option"

definition spread_key :: "'a \<Rightarrow> 'a option \<Rightarrow> 'a" where
  "spread_key old new = (case new of None \<Rightarrow> old | Some v \<Rightarrow> v)"

definition updateSettings :: "settings \<Rightarrow> settings_partial \<Rightarrow> settings" where
  "updateSettings prev partial =
     \<lparr> eventTitle = spread_key (eventTitle prev) (p_eventTitle partial),
       location = spread_key (location prev) (p_location partial),
       slotMinutes = spread_key (slotMinutes prev) (p_slotMinutes partial),
       slotCapacity = spread_key (slotCapacity prev) (p_slotCapacity partial),
       reminderMinutesBefore = spread_key (reminderMinutesBefore prev) (p_reminderMinutesBefore partial),
       adminPin = spread_key (adminPin prev) (p_adminPin partial),
       schedule = spread_key (schedule prev) (p_schedule partial) \<rparr>"

section \<open>CSV export\<close>

text \<open>
  A row handed to \<^verbatim>\<open>toCSV\<close> is an object whose keys have an order: a list of pairs of key and
  value. \<^verbatim>\<open>r[h]\<close> of a key the row lacks is \<^verbatim>\<open>undefined\<close>, which \<^verbatim>\<open>String(v ?? "")\<close> turns into
  the empty string.
\<close>

definition prop_or_empty :: "(string \<times> string) list \<Rightarrow> string \<Rightarrow> string" where
  "prop_or_empty r h = (case map_of r h of None \<Rightarrow> [] | Some v \<Rightarrow> v)"

text \<open>\<^verbatim>\<open>v.replace(/"/g, '""')\<close>: every double quote is written twice.\<close>

definition double_quotes :: "string \<Rightarrow> string" where
  "double_quotes v = concat (map (\<lambda>c. if c = dquote then [dquote, dquote] else [c]) v)"

definition esc :: "string \<Rightarrow> string" where
  "esc v = [dquote] @ double_quotes v @ [dquote]"

definition toCSV :: "(string \<times> string) list list \<Rightarrow> string" where
  "toCSV rows =
     (case rows of
        [] \<Rightarrow> []
      | r0 # _ \<Rightarrow>
          join [LF]
            (join [comma] (map fst r0) #
             map (\<lambda>r. join [comma] (map (\<lambda>h. esc (prop_or_empty r h)) (map fst r0))) rows))"

text \<open>
  \<^verbatim>\<open>exportCSV()\<close> builds one row per ticket and hands the text of \<^verbatim>\<open>toCSV\<close> to the download.
  \<open>hhmm\<close> is the library's \<^verbatim>\<open>dayjs(x).format("HH:mm")\<close> on a stored time stamp.
\<close>

definition export_row :: "(string \<Rightarrow> string) \<Rightarrow> ticket \<Rightarrow> (string \<times> string) list" where
  "export_row hhmm t =
     [ (''id'', ticket_id t),
       (''name'', name t),
       (''contact'', contact t),
       (''slot_label'', hhmm (slotStartISO t) @ ''-'' @ hhmm (slotEndISO t)),
       (''slot_id'', slotId t),
       (''created_at'', createdAtISO t) ]"

definition exportCSV :: "(string \<Rightarrow> string) \<Rightarrow> ticket list \<Rightarrow> string" where
  "exportCSV hhmm ts = toCSV (map (export_row hhmm) ts)"

section \<open>CSV import\<close>













section \<open>The CSV schema in the words of the design\<close>

text \<open>
  The design describes the exported text by its schema: the header
  \<^verbatim>\<open>id,name,contact,slot_label,slot_id,created_at\<close>, one row per ticket, every field wrapped in
  double quotes with the double quotes inside it doubled. The following definitions
  write that description down, independently of \<^verbatim>\<open>toCSV\<close>, to compare the export with it.
\<close>

definition header_line :: string where
  "header_line = ''id,name,contact,slot_label,slot_id,created_at''"

fun doubled :: "string \<Rightarrow> string" where
  "doubled [] = []"
| "doubled (c # cs) = (if c = dquote then dquote # dquote # doubled cs else c # doubled cs)"

definition quoted :: "string \<Rightarrow> string" where
  "quoted v = dquote # doubled v @ [dquote]"

definition csv_fields :: "(string \<Rightarrow> string) \<Rightarrow> ticket \<Rightarrow> string list" where
  "csv_fields hhmm t =
     [ticket_id t, name t, contact t, hhmm (slotStartISO t) @ ''-'' @ hhmm (slotEndISO t),
      slotId t, createdAtISO t]"

fun comma_separated :: "string list \<Rightarrow> string" where
  "comma_separated [] = []"
| "comma_separated [x] = x"
| "comma_separated (x # xs) = x @ comma # comma_separated xs"

definition csv_line :: "(string \<Rightarrow> string) \<Rightarrow> ticket \<Rightarrow> string" where
  "csv_line hhmm t = comma_separated (map quoted (csv_fields hhmm t))"









section \<open>Example data\<close>

text \<open>
  The example of the design: the schedule of 2025-10-31 from 09:00 with slots of 10
  minutes and room for one ticket in each, its three slots, and a ticket in the
  first of them.
\<close>

definition settings1 :: settings where
  "settings1 =
     \<lparr> eventTitle = ''Ticket'', location = ''Hall B'', slotMinutes = 10, slotCapacity = 1,
       reminderMinutesBefore = 5, adminPin = ''noguchi'',
       schedule = \<lparr>sch_date = ''2025-10-31'', sch_start = ''09:00'', sch_end = ''09:30''\<rparr> \<rparr>"

definition slot0 :: slot where
  "slot0 = \<lparr> slot_id = ''2025-10-31-000'', label = ''09:00-09:10'',
             startISO = ''2025-10-31T09:00Z'', endISO = ''2025-10-31T09:10Z'' \<rparr>"

definition slot1 :: slot where
  "slot1 = \<lparr> slot_id = ''2025-10-31-001'', label = ''09:10-09:20'',
             startISO = ''2025-10-31T09:10Z'', endISO = ''2025-10-31T09:20Z'' \<rparr>"

definition slot2 :: slot where
  "slot2 = \<lparr> slot_id = ''2025-10-31-002'', label = ''09:20-09:30'',
             startISO = ''2025-10-31T09:20Z'', endISO = ''2025-10-31T09:30Z'' \<rparr>"

definition ticket0 :: ticket where
  "ticket0 = \<lparr> ticket_id = ''ABCDE123'', name = ''Taro'', contact = ''3-B'',
               slotId = ''2025-10-31-000'', slotStartISO = ''2025-10-31T09:00Z'',
               slotEndISO = ''2025-10-31T09:10Z'', createdAtISO = ''2025-10-31T08:00Z'',
               notified = False \<rparr>"

text \<open>
  Stand-ins for the date library in the examples: the three texts the examples parse, as
  minutes since midnight, and the rendering of such an instant as hours and minutes.
\<close>

definition parse_ex :: "string \<Rightarrow> int option" where
  "parse_ex x =
     (if x = ''2025-10-31 09:00'' then Some 540
      else if x = ''2025-10-31 09:25'' then Some 565
      else if x = ''2025-10-31 09:30'' then Some 570
      else None)"

definition hh_mm :: "int \<Rightarrow> string" where
  "hh_mm t =
     padStart 2 (CHR ''0'') (String_nat (nat (t div 60))) @ '':'' @
     padStart 2 (CHR ''0'') (String_nat (nat (t mod 60)))"

definition settings2 :: settings where
  "settings2 =
     \<lparr> eventTitle = ''Ticket'', location = ''Hall B'', slotMinutes = 10, slotCapacity = 1,
       reminderMinutesBefore = 5, adminPin = ''noguchi'',
       schedule = \<lparr>sch_date = ''2025-10-31'', sch_start = ''09:00'', sch_end = ''09:25''\<rparr> \<rparr>"

definition iso_ex :: "int \<Rightarrow> string" where
  "iso_ex t = ''2025-10-31T'' @ hh_mm t @ ''Z''"

text \<open>
  Random sources for the examples. In \<open>rnd_ex\<close> the first eight calls return 0 (as
  \<open>0 / 2 ^ 2\<close>), which spells \<open>AAAAA000\<close>, and every later call returns one half (as
  \<open>2 / 2 ^ 2\<close>), which spells \<open>NNNNN555\<close>. In \<open>rnd_zero\<close> every call returns 0.
\<close>

definition rnd_ex :: "nat \<Rightarrow> unit_double" where
  "rnd_ex i = (if i < 8 then (0, 2) else (2, 2))"


text \<open>
  Further stand-ins for the examples: the rendering of a stored time stamp as hours and
  minutes (the characters 12 to 16 of the time stamps used here), a clock that always
  shows 08:30, a ticket whose slot is no longer in the slot list, a ticket whose name
  holds a double quote and a comma, and a ticket with the id \<open>AAAAA000\<close>.
\<close>

definition hhmm_ex :: "string \<Rightarrow> string" where
  "hhmm_ex x = take 5 (drop 11 x)"



definition ticket_quote :: ticket where
  "ticket_quote = \<lparr> ticket_id = ''ABCDE124'', name = [CHR ''A'', CHR 0x22, CHR '','', CHR ''B''],
               contact = [], slotId = ''2025-10-31-001'',
               slotStartISO = ''2025-10-31T09:10Z'', slotEndISO = ''2025-10-31T09:20Z'',
               createdAtISO = ''2025-10-31T08:05Z'', notified = True \<rparr>"





section \<open>The two counters agree\<close>

lemma fold_set_zero:
  "fold set_zero slots m k = (if k \<in> slot_id ` set slots then Some 0 else m k)"
  by (induction slots arbitrary: m) (auto simp: set_zero_def)

lemma capacityForSlot_Cons:
  "capacityForSlot (t # ts) k = (if slotId t = k then 1 else 0) + capacityForSlot ts k"
  by (simp add: capacityForSlot_def)

lemma capacityForSlot_absent:
  "k \<notin> slotId ` set tickets \<Longrightarrow> capacityForSlot tickets k = 0"
  by (induction tickets) (auto simp: capacityForSlot_def)

lemma bump_apply:
  "bump t m k = (if slotId t = k then Some (get_or_0 m k + 1) else m k)"
  by (auto simp: bump_def)

lemma get_or_0_bump:
  "get_or_0 (bump t m) k = (if slotId t = k then get_or_0 m k + 1 else get_or_0 m k)"
  by (simp add: bump_def get_or_0_def)

lemma fold_bump:
  "fold bump tickets m k =
     (if k \<in> slotId ` set tickets
      then Some (get_or_0 m k + capacityForSlot tickets k) else m k)"
proof (induction tickets arbitrary: m)
  case Nil
  then show ?case by simp
next
  case (Cons t ts)
  show ?case
  proof (cases "k \<in> slotId ` set ts")
    case True
    then show ?thesis
      by (simp add: Cons.IH get_or_0_bump capacityForSlot_Cons)
  next
    case False
    then have "capacityForSlot ts k = 0"
      by (rule capacityForSlot_absent)
    then have zero: "capacityForSlot (t # ts) k = (if slotId t = k then 1 else 0)"
      by (simp add: capacityForSlot_Cons)
    from False have "fold bump (t # ts) m k = bump t m k"
      by (simp add: Cons.IH)
    also have "\<dots> = (if slotId t = k then Some (get_or_0 m k + 1) else m k)"
      by (rule bump_apply)
    finally have folded: "fold bump (t # ts) m k =
        (if slotId t = k then Some (get_or_0 m k + 1) else m k)" .
    show ?thesis
      unfolding folded zero using False by auto
  qed
qed

text \<open>
  Claim C9. For every ticket list and slot list and every slot \<open>s\<close> of the slot list, the
  admin panel's map \<^verbatim>\<open>countsBySlot\<close> holds at the key \<^verbatim>\<open>s.id\<close> exactly
  \<^verbatim>\<open>capacityForSlot(tickets, s.id)\<close>.
\<close>

theorem countsBySlot_agrees:
  assumes "s \<in> set slots"
  shows "countsBySlot tickets slots (slot_id s) = Some (capacityForSlot tickets (slot_id s))"
proof -
  have init: "fold set_zero slots Map.empty (slot_id s) = Some 0"
    using assms by (simp add: fold_set_zero)
  show ?thesis
    unfolding countsBySlot_def
    by (simp add: fold_bump init get_or_0_def capacityForSlot_absent)
qed

theorem countsBySlot_agrees_witness:
  "\<lparr>slot_id = ''d-000'', label = ''09:00-09:10'', startISO = ''a'', endISO = ''b''\<rparr>
      \<in> set [\<lparr>slot_id = ''d-000'', label = ''09:00-09:10'', startISO = ''a'', endISO = ''b''\<rparr>,
               \<lparr>slot_id = ''d-001'', label = ''09:10-09:20'', startISO = ''b'', endISO = ''c''\<rparr>]
   \<and> countsBySlot
        [\<lparr>ticket_id = ''ABCDE123'', name = ''x'', contact = [], slotId = ''d-000'',
           slotStartISO = ''a'', slotEndISO = ''b'', createdAtISO = ''n'', notified = False\<rparr>,
         \<lparr>ticket_id = ''ABCDE124'', name = ''y'', contact = [], slotId = ''old-7'',
           slotStartISO = ''a'', slotEndISO = ''b'', createdAtISO = ''n'', notified = False\<rparr>,
         \<lparr>ticket_id = ''ABCDE125'', name = ''z'', contact = [], slotId = ''d-000'',
           slotStartISO = ''a'', slotEndISO = ''b'', createdAtISO = ''n'', notified = False\<rparr>]
        [\<lparr>slot_id = ''d-000'', label = ''09:00-09:10'', startISO = ''a'', endISO = ''b''\<rparr>,
         \<lparr>slot_id = ''d-001'', label = ''09:10-09:20'', startISO = ''b'', endISO = ''c''\<rparr>]
        ''d-000'' = Some 2"
  using countsBySlot_agrees [of
      "\<lparr>slot_id = ''d-000'', label = ''09:00-09:10'', startISO = ''a'', endISO = ''b''\<rparr>"
      "[\<lparr>slot_id = ''d-000'', label = ''09:00-09:10'', startISO = ''a'', endISO = ''b''\<rparr>,
        \<lparr>slot_id = ''d-001'', label = ''09:10-09:20'', startISO = ''b'', endISO = ''c''\<rparr>]"
      "[\<lparr>ticket_id = ''ABCDE123'', name = ''x'', contact = [], slotId = ''d-000'',
           slotStartISO = ''a'', slotEndISO = ''b'', createdAtISO = ''n'', notified = False\<rparr>,
         \<lparr>ticket_id = ''ABCDE124'', name = ''y'', contact = [], slotId = ''old-7'',
           slotStartISO = ''a'', slotEndISO = ''b'', createdAtISO = ''n'', notified = False\<rparr>,
         \<lparr>ticket_id = ''ABCDE125'', name = ''z'', contact = [], slotId = ''d-000'',
           slotStartISO = ''a'', slotEndISO = ''b'', createdAtISO = ''n'', notified = False\<rparr>]"]
  by (simp add: capacityForSlot_def)

section \<open>Partial merge of the settings\<close>

text \<open>
  Claim C8. For every settings record and every partial update, \<^verbatim>\<open>updateSettings\<close> yields a
  settings record in which each field named in the partial update has the new value and
  every field the partial update does not name keeps its old value.
\<close>

theorem updateSettings_partial_merge:
  "(p_eventTitle partial = Some v1 \<longrightarrow> eventTitle (updateSettings prev partial) = v1) \<and>
   (p_eventTitle partial = None \<longrightarrow> eventTitle (updateSettings prev partial) = eventTitle prev) \<and>
   (p_location partial = Some v2 \<longrightarrow> location (updateSettings prev partial) = v2) \<and>
   (p_location partial = None \<longrightarrow> location (updateSettings prev partial) = location prev) \<and>
   (p_slotMinutes partial = Some v3 \<longrightarrow> slotMinutes (updateSettings prev partial) = v3) \<and>
   (p_slotMinutes partial = None \<longrightarrow> slotMinutes (updateSettings prev partial) = slotMinutes prev) \<and>
   (p_slotCapacity partial = Some v4 \<longrightarrow> slotCapacity (updateSettings prev partial) = v4) \<and>
   (p_slotCapacity partial = None \<longrightarrow> slotCapacity (updateSettings prev partial) = slotCapacity prev) \<and>
   (p_reminderMinutesBefore partial = Some v5 \<longrightarrow>
      reminderMinutesBefore (updateSettings prev partial) = v5) \<and>
   (p_reminderMinutesBefore partial = None \<longrightarrow>
      reminderMinutesBefore (updateSettings prev partial) = reminderMinutesBefore prev) \<and>
   (p_adminPin partial = Some v6 \<longrightarrow> adminPin (updateSettings prev partial) = v6) \<and>
   (p_adminPin partial = None \<longrightarrow> adminPin (updateSettings prev partial) = adminPin prev) \<and>
   (p_schedule partial = Some v7 \<longrightarrow> schedule (updateSettings prev partial) = v7) \<and>
   (p_schedule partial = None \<longrightarrow> schedule (updateSettings prev partial) = schedule prev)"
  by (simp add: updateSettings_def spread_key_def)

theorem updateSettings_partial_merge_witness:
  "updateSettings
     \<lparr>eventTitle = ''Ticket'', location = ''Hall B'', slotMinutes = 10, slotCapacity = 8,
      reminderMinutesBefore = 5, adminPin = ''noguchi'',
      schedule = \<lparr>sch_date = ''2025-10-31'', sch_start = ''09:00'', sch_end = ''16:00''\<rparr>\<rparr>
     \<lparr>p_eventTitle = None, p_location = None, p_slotMinutes = Some 15, p_slotCapacity = None,
      p_reminderMinutesBefore = None, p_adminPin = None,
      p_schedule = Some \<lparr>sch_date = ''2025-10-31'', sch_start = ''10:00'', sch_end = ''16:00''\<rparr>\<rparr>
   = \<lparr>eventTitle = ''Ticket'', location = ''Hall B'', slotMinutes = 15, slotCapacity = 8,
      reminderMinutesBefore = 5, adminPin = ''noguchi'',
      schedule = \<lparr>sch_date = ''2025-10-31'', sch_start = ''10:00'', sch_end = ''16:00''\<rparr>\<rparr>"
  using updateSettings_partial_merge [of
     "\<lparr>p_eventTitle = None, p_location = None, p_slotMinutes = Some 15, p_slotCapacity = None,
      p_reminderMinutesBefore = None, p_adminPin = None,
      p_schedule = Some \<lparr>sch_date = ''2025-10-31'', sch_start = ''10:00'', sch_end = ''16:00''\<rparr>\<rparr>"
     "[]"
     "\<lparr>eventTitle = ''Ticket'', location = ''Hall B'', slotMinutes = 10, slotCapacity = 8,
      reminderMinutesBefore = 5, adminPin = ''noguchi'',
      schedule = \<lparr>sch_date = ''2025-10-31'', sch_start = ''09:00'', sch_end = ''16:00''\<rparr>\<rparr>"
     "[]" 15 0 0 "[]"
     "\<lparr>sch_date = ''2025-10-31'', sch_start = ''10:00'', sch_end = ''16:00''\<rparr>"]
  by (simp add: settings.equality)

section \<open>The slots of a schedule\<close>

lemma buildSlots_loop_result:
  assumes "0 < m"
  shows "buildSlots_loop fmt toISO date m e t idx acc =
           Some (acc @ map (\<lambda>i. slot_at fmt toISO date m (t + int i * m) (idx + i))
                        [0..<nat ((e - t + m - 1) div m)])"
proof (induction "nat (e - t)" arbitrary: t idx acc rule: less_induct)
  case less
  show ?case
  proof (cases "t < e")
    case False
    then have "e - t + m - 1 < m" by simp
    then have "(e - t + m - 1) div m \<le> 0"
    proof (cases "e - t + m - 1 < 0")
      case True
      then have "(e - t + m - 1) div m < 0"
        using assms by (simp only: pos_imp_zdiv_neg_iff)
      then show ?thesis by simp
    next
      case False
      with \<open>e - t + m - 1 < m\<close> have "(e - t + m - 1) div m = 0"
        by (intro div_pos_pos_trivial) simp_all
      then show ?thesis by simp
    qed
    then have "nat ((e - t + m - 1) div m) = 0" by simp
    with False show ?thesis
      by (subst buildSlots_loop.simps) simp
  next
    case True
    let ?k = "nat ((e - (t + m) + m - 1) div m)"
    have smaller: "nat (e - (t + m)) < nat (e - t)"
      using True assms by simp
    have "e - t + m - 1 = (e - (t + m) + m - 1) + 1 * m" by simp
    then have "(e - t + m - 1) div m = (e - (t + m) + m - 1) div m + 1"
      using assms by (metis div_add_self2 mult.commute mult.right_neutral less_irrefl)
    moreover have "0 \<le> (e - (t + m) + m - 1) div m"
      using True assms by (simp add: pos_imp_zdiv_nonneg_iff)
    ultimately have count: "nat ((e - t + m - 1) div m) = Suc ?k"
      by simp
    have shift: "map (\<lambda>i. slot_at fmt toISO date m (t + int i * m) (idx + i)) [0..<Suc ?k] =
        slot_at fmt toISO date m t idx #
        map (\<lambda>i. slot_at fmt toISO date m (t + m + int i * m) (Suc idx + i)) [0..<?k]"
      by (simp add: map_upt_Suc algebra_simps del: upt_Suc)
    have "buildSlots_loop fmt toISO date m e t idx acc =
        buildSlots_loop fmt toISO date m e (t + m) (Suc idx) (acc @ [slot_at fmt toISO date m t idx])"
      using True by (subst buildSlots_loop.simps) simp
    also have "\<dots> = Some ((acc @ [slot_at fmt toISO date m t idx]) @
        map (\<lambda>i. slot_at fmt toISO date m (t + m + int i * m) (Suc idx + i)) [0..<?k])"
      using smaller by (rule less.hyps)
    finally show ?thesis
      unfolding count shift by simp
  qed
qed


lemma ceiling_div:
  fixes d m :: int
  assumes "0 < m"
  shows "(d + m - 1) div m = d div m + (if m dvd d then 0 else 1)"
proof -
  define q where "q = d div m"
  define r where "r = d mod m"
  have d: "d = m * q + r" by (simp add: q_def r_def)
  have r: "0 \<le> r" "r < m" using assms by (simp_all add: r_def)
  show ?thesis
  proof (cases "m dvd d")
    case True
    then have "r = 0" by (simp add: r_def dvd_eq_mod_eq_0)
    then have "d + m - 1 = m * q + (m - 1)" using d by simp
    then have "(d + m - 1) div m = q"
      using assms int_div_pos_eq [of "d + m - 1" m q "m - 1"] by simp
    with True show ?thesis by (simp add: q_def)
  next
    case False
    then have "r \<noteq> 0" by (simp add: r_def dvd_eq_mod_eq_0)
    with r have "0 < r" by simp
    have "d + m - 1 = m * (q + 1) + (r - 1)" using d by (simp add: algebra_simps)
    then have "(d + m - 1) div m = q + 1"
      using assms r \<open>0 < r\<close> int_div_pos_eq [of "d + m - 1" m "q + 1" "r - 1"] by simp
    with False show ?thesis by (simp add: q_def)
  qed
qed

lemma below_ceiling:
  fixes d m :: int
  assumes "0 < m" and "int i < (d + m - 1) div m"
  shows "int i * m < d"
proof -
  from assms(2) have "int i + 1 \<le> (d + m - 1) div m" by simp
  then have "(int i + 1) * m \<le> (d + m - 1) div m * m"
    using assms(1) by (intro mult_right_mono) simp_all
  also have "\<dots> \<le> d + m - 1"
  proof -
    have "d + m - 1 = (d + m - 1) div m * m + (d + m - 1) mod m" by simp
    moreover have "0 \<le> (d + m - 1) mod m"
      using assms(1) by simp
    ultimately show ?thesis by linarith
  qed
  finally show ?thesis by (simp add: algebra_simps)
qed

lemma above_ceiling:
  fixes d m :: int
  assumes "0 < m"
  shows "d \<le> (d + m - 1) div m * m"
proof -
  have "d + m - 1 = (d + m - 1) div m * m + (d + m - 1) mod m" by simp
  moreover have "(d + m - 1) mod m \<le> m - 1"
    using assms pos_mod_bound [of m "d + m - 1"] by simp
  ultimately show ?thesis by linarith
qed

text \<open>
  Claim C1, as amended. For every settings record whose schedule parses to a start \<open>s\<close> and
  an end \<open>e\<close> with \<open>s < e\<close>, and whose \<^verbatim>\<open>slotMinutes\<close> is positive, \<^verbatim>\<open>buildSlots\<close> returns,
  and it returns the quotient \<open>(e - s) div slotMinutes\<close> of slots when \<^verbatim>\<open>slotMinutes\<close> divides
  the range and one slot more when it does not (the quotient rounded up). The slot
  number \<open>i\<close> starts at \<open>s + i * slotMinutes\<close>, which lies in \<open>[s, e)\<close>, and lasts exactly
  \<^verbatim>\<open>slotMinutes\<close>; each slot ends where the next one starts. When \<^verbatim>\<open>slotMinutes\<close> divides the
  range every slot ends at or before \<open>e\<close>; otherwise the last slot, which covers the
  remainder, ends after \<open>e\<close>.
\<close>

theorem buildSlots_slots:
  assumes start: "parse (sch_date (schedule st) @ '' '' @ sch_start (schedule st)) = Some s"
      and finish: "parse (sch_date (schedule st) @ '' '' @ sch_end (schedule st)) = Some e"
      and range: "s < e"
      and width: "0 < slotMinutes st"
  shows "\<exists>slots. buildSlots parse fmt toISO st = Some slots \<and>
           int (length slots) =
             (e - s) div slotMinutes st + (if slotMinutes st dvd e - s then 0 else 1) \<and>
           (\<forall>i<length slots.
              slots ! i = slot_at fmt toISO (sch_date (schedule st)) (slotMinutes st)
                            (s + int i * slotMinutes st) i \<and>
              s \<le> s + int i * slotMinutes st \<and> s + int i * slotMinutes st < e) \<and>
           (\<forall>i. Suc i < length slots \<longrightarrow> endISO (slots ! i) = startISO (slots ! Suc i)) \<and>
           (slotMinutes st dvd e - s \<longrightarrow>
              (\<forall>i<length slots. s + int i * slotMinutes st + slotMinutes st \<le> e)) \<and>
           (\<not> slotMinutes st dvd e - s \<longrightarrow> e < s + int (length slots) * slotMinutes st)"
proof -
  define m where "m = slotMinutes st"
  define k where "k = nat ((e - s + m - 1) div m)"
  define f where "f = (\<lambda>i. slot_at fmt toISO (sch_date (schedule st)) m (s + int i * m) (0 + i))"
  define slots where "slots = map f [0..<k]"
  have m: "0 < m" using width by (simp add: m_def)
  have run: "buildSlots parse fmt toISO st = Some slots"
    unfolding buildSlots_def start finish slots_def f_def k_def m_def
    using buildSlots_loop_result [OF width, of fmt toISO "sch_date (schedule st)" e s 0 "[]"]
    by simp
  have len: "length slots = k" by (simp add: slots_def)
  have nth: "slots ! i = f i" if "i < k" for i
    using that by (simp add: slots_def)
  have ceil: "(e - s + m - 1) div m = (e - s) div m + (if m dvd e - s then 0 else 1)"
    using m by (rule ceiling_div)
  have "0 \<le> (e - s) div m"
    using m range by (simp add: pos_imp_zdiv_nonneg_iff)
  then have nonneg: "0 \<le> (e - s + m - 1) div m"
    unfolding ceil by simp
  then have k: "int k = (e - s + m - 1) div m"
    by (simp add: k_def)
  have count: "int (length slots) = (e - s) div m + (if m dvd e - s then 0 else 1)"
    unfolding len k ceil ..
  have inside: "s \<le> s + int i * m \<and> s + int i * m < e" if "i < k" for i
  proof -
    from that have "int i < (e - s + m - 1) div m" using k by simp
    with m have "int i * m < e - s" by (rule below_ceiling)
    moreover have "0 \<le> int i * m" using m by simp
    ultimately show ?thesis by simp
  qed
  have each: "\<forall>i<length slots. slots ! i = slot_at fmt toISO (sch_date (schedule st)) m (s + int i * m) i \<and>
      s \<le> s + int i * m \<and> s + int i * m < e"
    using nth inside by (simp add: len f_def)
  have contiguous: "\<forall>i. Suc i < length slots \<longrightarrow> endISO (slots ! i) = startISO (slots ! Suc i)"
  proof (intro allI impI)
    fix i assume "Suc i < length slots"
    then have "Suc i < k" "i < k" by (simp_all add: len)
    then have here: "slots ! i = f i" and after: "slots ! Suc i = f (Suc i)"
      by (simp_all add: nth)
    have "s + int i * m + m = s + int (Suc i) * m"
      by (simp add: algebra_simps)
    then have "endISO (f i) = startISO (f (Suc i))"
      by (simp only: f_def slot_at_def slot.simps)
    then show "endISO (slots ! i) = startISO (slots ! Suc i)"
      by (simp only: here after)
  qed
  have exact: "\<forall>i<length slots. s + int i * m + m \<le> e" if "m dvd e - s"
  proof (intro allI impI)
    fix i assume "i < length slots"
    then have "int i + 1 \<le> (e - s) div m"
      using count that by simp
    then have "(int i + 1) * m \<le> (e - s) div m * m"
      using m by (intro mult_right_mono) simp_all
    also have "\<dots> = e - s" using that by simp
    finally show "s + int i * m + m \<le> e" by (simp add: algebra_simps)
  qed
  have over: "e < s + int (length slots) * m" if "\<not> m dvd e - s"
  proof -
    have "e - s \<le> int k * m"
      unfolding k using m by (rule above_ceiling)
    moreover have "e - s \<noteq> int k * m"
      using that by (metis dvd_triv_right)
    ultimately show ?thesis by (simp add: len)
  qed
  from run count each contiguous exact over show ?thesis
    unfolding m_def by blast
qed

lemma replicate_small:
  "replicate 1 c = [c]" "replicate 2 c = [c, c]" "replicate 3 c = [c, c, c]"
  by (simp_all add: numeral_2_eq_2 numeral_3_eq_3)

lemma slot_at_540: "slot_at hh_mm iso_ex ''2025-10-31'' 10 540 0 = slot0"
  by (simp add: slot_at_def hh_mm_def iso_ex_def slot0_def padStart_def digits_def replicate_small)

lemma slot_at_550: "slot_at hh_mm iso_ex ''2025-10-31'' 10 550 (Suc 0) = slot1"
  by (simp add: slot_at_def hh_mm_def iso_ex_def slot1_def padStart_def digits_def replicate_small)

lemma slot_at_560: "slot_at hh_mm iso_ex ''2025-10-31'' 10 560 (Suc (Suc 0)) = slot2"
  by (simp add: slot_at_def hh_mm_def iso_ex_def slot2_def padStart_def digits_def replicate_small)

lemma buildSlots_loop_until_0930:
  "buildSlots_loop hh_mm iso_ex ''2025-10-31'' 10 570 540 0 [] = Some [slot0, slot1, slot2]"
  by (simp add: buildSlots_loop.simps slot_at_540 slot_at_550 slot_at_560)

lemma buildSlots_loop_until_0925:
  "buildSlots_loop hh_mm iso_ex ''2025-10-31'' 10 565 540 0 [] = Some [slot0, slot1, slot2]"
  by (simp add: buildSlots_loop.simps slot_at_540 slot_at_550 slot_at_560)

theorem buildSlots_slots_witness:
  "parse_ex (sch_date (schedule settings1) @ '' '' @ sch_start (schedule settings1)) = Some 540 \<and>
   parse_ex (sch_date (schedule settings1) @ '' '' @ sch_end (schedule settings1)) = Some 570 \<and>
   (540::int) < 570 \<and> 0 < slotMinutes settings1 \<and>
   buildSlots parse_ex hh_mm iso_ex settings1 = Some [slot0, slot1, slot2] \<and>
   int (length [slot0, slot1, slot2]) = (570 - 540) div slotMinutes settings1"
proof -
  have start: "parse_ex (sch_date (schedule settings1) @ '' '' @ sch_start (schedule settings1)) = Some 540"
    by (simp add: parse_ex_def settings1_def)
  have finish: "parse_ex (sch_date (schedule settings1) @ '' '' @ sch_end (schedule settings1)) = Some 570"
    by (simp add: parse_ex_def settings1_def)
  have range: "(540::int) < 570" by simp
  have width: "0 < slotMinutes settings1" by (simp add: settings1_def)
  have date: "sch_date (schedule settings1) = ''2025-10-31''" and m: "slotMinutes settings1 = 10"
    by (simp_all add: settings1_def)
  from buildSlots_slots [OF start finish range width, of hh_mm iso_ex]
  obtain slots where run: "buildSlots parse_ex hh_mm iso_ex settings1 = Some slots"
    and count: "int (length slots) =
      (570 - 540) div slotMinutes settings1 + (if slotMinutes settings1 dvd 570 - 540 then 0 else 1)"
    by blast
  have "buildSlots parse_ex hh_mm iso_ex settings1 = Some [slot0, slot1, slot2]"
    unfolding buildSlots_def start finish by (simp add: date m buildSlots_loop_until_0930)
  with run have slots: "slots = [slot0, slot1, slot2]"
    by simp
  have "int (length [slot0, slot1, slot2]) = (570 - 540) div slotMinutes settings1"
    using count unfolding slots by (simp add: m)
  with start finish range width run slots show ?thesis
    by (intro conjI) simp_all
qed

text \<open>
  The claim as first stated gives the quotient rounded down for every schedule, keeps
  every slot inside the range and lets a remainder yield no slot. From 09:00 to 09:25
  with slots of 10 minutes the quotient is 2, but the loop builds three slots, and the
  third one runs from 09:20 to 09:30, five minutes past the end of the schedule.
\<close>

theorem buildSlots_trailing_remainder:
  "parse_ex (sch_date (schedule settings2) @ '' '' @ sch_start (schedule settings2)) = Some 540 \<and>
   parse_ex (sch_date (schedule settings2) @ '' '' @ sch_end (schedule settings2)) = Some 565 \<and>
   slotMinutes settings2 = 10 \<and>
   buildSlots parse_ex hh_mm iso_ex settings2 = Some [slot0, slot1, slot2] \<and>
   length [slot0, slot1, slot2] \<noteq> nat ((565 - 540) div 10) \<and>
   endISO slot2 = iso_ex 570"
proof -
  have start: "parse_ex (sch_date (schedule settings2) @ '' '' @ sch_start (schedule settings2)) = Some 540"
    by (simp add: parse_ex_def settings2_def)
  have finish: "parse_ex (sch_date (schedule settings2) @ '' '' @ sch_end (schedule settings2)) = Some 565"
    by (simp add: parse_ex_def settings2_def)
  have date: "sch_date (schedule settings2) = ''2025-10-31''" and width: "slotMinutes settings2 = 10"
    by (simp_all add: settings2_def)
  have run: "buildSlots parse_ex hh_mm iso_ex settings2 = Some [slot0, slot1, slot2]"
    unfolding buildSlots_def start finish by (simp add: date width buildSlots_loop_until_0925)
  have count: "length [slot0, slot1, slot2] \<noteq> nat ((565 - 540) div 10)"
    by simp
  have last: "endISO slot2 = iso_ex 570"
    by (simp add: slot2_def iso_ex_def hh_mm_def padStart_def digits_def replicate_small)
  from start finish width run count last show ?thesis
    by (intro conjI)
qed


section \<open>The identifier generator: shape, freshness and rejection sampling\<close>

subsection \<open>The index drawn from a double\<close>








subsection \<open>One round: the candidate\<close>









subsection \<open>The loop\<close>





subsection \<open>The generator of the first script\<close>





subsection \<open>At the double 0.7\<close>

text \<open>
  The double nearest to 0.7 is \<open>6305039478318694 / 2 ^ 53\<close>, a little below 0.7. Its exact
  product with 10 lies half way between two doubles and is rounded to 7, so the code
  draws the digit 7 there, not 6.
\<close>

lemma random_index_seven_tenths: "random_index (6305039478318694, 53) 10 = 7"
  by (simp add: random_index_def round_even_def bit_length.simps)


subsection \<open>The claim\<close>
















section \<open>Creating a ticket: the refusals\<close>

lemma trim_blank:
  assumes "list_all is_space s"
  shows "trim s = []"
proof -
  from assms have "\<forall>x\<in>set s. is_space x"
    by (simp add: list_all_iff)
  then have front: "dropWhile is_space s = []"
    by (simp only: dropWhile_eq_Nil_conv)
  show ?thesis
    unfolding trim_def front by simp
qed

lemma createTicket_refusal_unchanged:
  assumes "createTicket rnd n now st slots a = Some (al, a')" and "error_of al \<noteq> None"
  shows "a' = a"
  using assms
  by (auto simp: createTicket_def split: option.splits if_splits)

text \<open>
  Claim C6. For every ticket list and every state of the chosen slot (free, full, past or
  not in the slot list), \<^verbatim>\<open>createTicket\<close> with a blank name (empty or white space only)
  fails with a validation error and appends no ticket: the state is the one before.
\<close>

theorem createTicket_blank_name:
  assumes "list_all is_space (app_name a)"
  shows "\<exists>al. createTicket rnd n now st slots a = Some (al, a) \<and>
              error_of al = Some ValidationError"
proof (cases "find (\<lambda>s. slot_id s = app_slotId a) slots")
  case None
  then have "createTicket rnd n now st slots a = Some (InvalidSlot, a)"
    by (simp add: createTicket_def)
  then show ?thesis by simp
next
  case (Some sl)
  moreover have "trim (app_name a) = []"
    using assms by (rule trim_blank)
  ultimately have "createTicket rnd n now st slots a = Some (NameRequired, a)"
    by (simp add: createTicket_def)
  then show ?thesis by simp
qed

theorem createTicket_blank_name_witness:
  "list_all is_space [CHR 0x20, CHR 0x09] \<and>
   createTicket rnd_ex 0 ''2025-10-31T08:30Z'' settings1 [slot0, slot1]
     \<lparr>app_tickets = [], app_name = [CHR 0x20, CHR 0x09], app_contact = ''3-B'',
      app_slotId = ''2025-10-31-001''\<rparr>
   = Some (NameRequired,
       \<lparr>app_tickets = [], app_name = [CHR 0x20, CHR 0x09], app_contact = ''3-B'',
        app_slotId = ''2025-10-31-001''\<rparr>) \<and>
   error_of NameRequired = Some ValidationError"
proof -
  let ?a = "\<lparr>app_tickets = [], app_name = [CHR 0x20, CHR 0x09], app_contact = ''3-B'',
      app_slotId = ''2025-10-31-001''\<rparr>"
  have blank: "list_all is_space (app_name ?a)"
    by (simp add: is_space_def)
  from createTicket_blank_name [OF blank]
  obtain al where r: "createTicket rnd_ex 0 ''2025-10-31T08:30Z'' settings1 [slot0, slot1] ?a
      = Some (al, ?a)" and "error_of al = Some ValidationError"
    by blast
  have found: "find (\<lambda>s. slot_id s = app_slotId ?a) [slot0, slot1] = Some slot1"
    by (simp add: slot0_def slot1_def)
  have "createTicket rnd_ex 0 ''2025-10-31T08:30Z'' settings1 [slot0, slot1] ?a
      = Some (NameRequired, ?a)"
    unfolding createTicket_def found using trim_blank [OF blank] by simp
  with blank show ?thesis by (simp add: is_space_def)
qed

text \<open>
  Claim C2, as amended. For every ticket list and every slot whose ticket count has
  reached the configured \<^verbatim>\<open>slotCapacity\<close>, \<^verbatim>\<open>createTicket\<close> on that slot fails and leaves the
  ticket list (and the form) unchanged. The failure is the capacity error exactly when
  the slot is in the current slot list and the name is not blank: the source looks the
  slot up and tests the name before it counts, so a missing slot or a blank name is
  reported as a validation error instead.
\<close>

theorem createTicket_full_slot:
  assumes full: "slotCapacity st \<le> int (capacityForSlot (app_tickets a) (app_slotId a))"
  shows "\<exists>al. createTicket rnd n now st slots a = Some (al, a) \<and> error_of al \<noteq> None \<and>
           (error_of al = Some CapacityError \<longleftrightarrow>
              find (\<lambda>s. slot_id s = app_slotId a) slots \<noteq> None \<and> trim (app_name a) \<noteq> [])"
proof (cases "find (\<lambda>s. slot_id s = app_slotId a) slots")
  case None
  then have "createTicket rnd n now st slots a = Some (InvalidSlot, a)"
    by (simp add: createTicket_def)
  with None show ?thesis by simp
next
  case (Some sl)
  show ?thesis
  proof (cases "trim (app_name a) = []")
    case True
    with Some have "createTicket rnd n now st slots a = Some (NameRequired, a)"
      by (simp add: createTicket_def)
    with True show ?thesis by simp
  next
    case False
    with Some full have "createTicket rnd n now st slots a = Some (SlotFull, a)"
      by (simp add: createTicket_def)
    with Some False show ?thesis by simp
  qed
qed

theorem createTicket_full_slot_witness:
  "slotCapacity settings1 \<le> int (capacityForSlot [ticket0] ''2025-10-31-000'') \<and>
   createTicket rnd_ex 0 ''2025-10-31T08:30Z'' settings1 [slot0, slot1]
     \<lparr>app_tickets = [ticket0], app_name = ''Hanako'', app_contact = [],
      app_slotId = ''2025-10-31-000''\<rparr>
   = Some (SlotFull,
       \<lparr>app_tickets = [ticket0], app_name = ''Hanako'', app_contact = [],
        app_slotId = ''2025-10-31-000''\<rparr>) \<and>
   error_of SlotFull = Some CapacityError"
proof -
  let ?a = "\<lparr>app_tickets = [ticket0], app_name = ''Hanako'', app_contact = [],
      app_slotId = ''2025-10-31-000''\<rparr>"
  have full: "slotCapacity settings1 \<le> int (capacityForSlot (app_tickets ?a) (app_slotId ?a))"
    by (simp add: settings1_def capacityForSlot_def ticket0_def)
  have found: "find (\<lambda>s. slot_id s = app_slotId ?a) [slot0, slot1] \<noteq> None"
    by (simp add: slot0_def)
  have named: "trim (app_name ?a) \<noteq> []"
    by (simp add: trim_def is_space_def)
  from createTicket_full_slot [OF full, of rnd_ex 0 "''2025-10-31T08:30Z''" "[slot0, slot1]"]
  obtain al where r: "createTicket rnd_ex 0 ''2025-10-31T08:30Z'' settings1 [slot0, slot1] ?a
        = Some (al, ?a)"
    and k: "error_of al = Some CapacityError \<longleftrightarrow>
        find (\<lambda>s. slot_id s = app_slotId ?a) [slot0, slot1] \<noteq> None \<and> trim (app_name ?a) \<noteq> []"
    by blast
  from k found named have "error_of al = Some CapacityError" by blast
  then have "al = SlotFull" by (cases al) simp_all
  with r full show ?thesis by simp
qed

text \<open>
  The claim as first stated promises the capacity error for every call on a full slot.
  A call with an empty name on the full first slot is refused for its name.
\<close>

theorem createTicket_full_slot_blank_name:
  "slotCapacity settings1 \<le> int (capacityForSlot [ticket0] ''2025-10-31-000'') \<and>
   createTicket rnd_ex 0 ''2025-10-31T08:30Z'' settings1 [slot0, slot1]
     \<lparr>app_tickets = [ticket0], app_name = [], app_contact = [],
      app_slotId = ''2025-10-31-000''\<rparr>
   = Some (NameRequired,
       \<lparr>app_tickets = [ticket0], app_name = [], app_contact = [],
        app_slotId = ''2025-10-31-000''\<rparr>) \<and>
   error_of NameRequired \<noteq> Some CapacityError"
  by (simp add: createTicket_def settings1_def slot0_def slot1_def ticket0_def
      capacityForSlot_def trim_def)


section \<open>The exported text\<close>

lemma double_quotes_doubled: "double_quotes v = doubled v"
  by (induction v) (simp_all add: double_quotes_def)

lemma esc_quoted: "esc v = quoted v"
  by (simp add: esc_def quoted_def double_quotes_doubled)

lemma join_comma_separated: "join [comma] xs = comma_separated xs"
  by (induction xs rule: comma_separated.induct) simp_all

lemma export_row_keys:
  "map fst (export_row hhmm t) =
     [''id'', ''name'', ''contact'', ''slot_label'', ''slot_id'', ''created_at'']"
  by (simp add: export_row_def)

lemma export_row_values:
  "map (\<lambda>h. esc (prop_or_empty (export_row hhmm t) h))
       [''id'', ''name'', ''contact'', ''slot_label'', ''slot_id'', ''created_at''] =
     map quoted (csv_fields hhmm t)"
  by (simp add: export_row_def prop_or_empty_def csv_fields_def esc_quoted)

lemma header_keys:
  "join [comma] [''id'', ''name'', ''contact'', ''slot_label'', ''slot_id'', ''created_at''] =
     header_line"
  by (simp add: header_line_def comma_def)

lemma join_lines: "join [LF] (h # map f xs) = h @ concat (map (\<lambda>x. LF # f x) xs)"
  by (induction xs arbitrary: h) simp_all

lemma exportCSV_rows:
  assumes "ts \<noteq> []"
  shows "exportCSV hhmm ts = header_line @ concat (map (\<lambda>t. LF # csv_line hhmm t) ts)"
proof -
  from assms obtain t0 ts' where ts: "ts = t0 # ts'"
    by (cases ts) auto
  have "toCSV (map (export_row hhmm) ts) =
      join [LF] (header_line # map (\<lambda>r. join [comma] (map (\<lambda>h. esc (prop_or_empty r h))
         [''id'', ''name'', ''contact'', ''slot_label'', ''slot_id'', ''created_at''])) (map (export_row hhmm) ts))"
    unfolding ts toCSV_def by (simp only: list.map list.case export_row_keys header_keys)
  also have "\<dots> = join [LF] (header_line # map (csv_line hhmm) ts)"
    by (simp only: map_map comp_def export_row_values join_comma_separated)
      (simp add: csv_line_def [abs_def])
  also have "\<dots> = header_line @ concat (map (\<lambda>t. LF # csv_line hhmm t) ts)"
    by (rule join_lines)
  finally show ?thesis
    by (simp only: exportCSV_def)
qed

lemma exportCSV_empty: "exportCSV hhmm [] = []"
  by (simp add: exportCSV_def toCSV_def)


section \<open>Reading an exported text\<close>






















section \<open>The schema of the exported text\<close>

text \<open>
  Claim C7, as amended. For every ticket list that is not empty, the text of the export
  is the header line \<^verbatim>\<open>id,name,contact,slot_label,slot_id,created_at\<close> followed by exactly one
  row per ticket, in the order of the list, each row after a line feed; a row holds the
  six fields of its ticket, separated by commas, every field wrapped in double quotes
  with the double quotes inside it doubled. For the empty ticket list the text is empty:
  it has no header line.
\<close>

theorem exportCSV_schema:
  "exportCSV hhmm [] = [] \<and>
   (ts \<noteq> [] \<longrightarrow>
      exportCSV hhmm ts = header_line @ concat (map (\<lambda>t. LF # csv_line hhmm t) ts))"
  using exportCSV_rows [of ts hhmm] by (simp add: exportCSV_empty)

lemma csv_line_ticket_quote:
  "csv_line hhmm_ex ticket_quote =
     [dquote] @ ''ABCDE124'' @ [dquote, comma, dquote] @
     [CHR ''A'', dquote, dquote, comma, CHR ''B''] @ [dquote, comma, dquote, dquote, comma, dquote] @
     ''09:10-09:20'' @ [dquote, comma, dquote] @ ''2025-10-31-001'' @ [dquote, comma, dquote] @
     ''2025-10-31T08:05Z'' @ [dquote]"
  by (simp add: csv_line_def csv_fields_def quoted_def ticket_quote_def hhmm_ex_def dquote_def
      comma_def)

theorem exportCSV_schema_witness:
  "[ticket_quote] \<noteq> [] \<and>
   exportCSV hhmm_ex [ticket_quote] =
     ''id,name,contact,slot_label,slot_id,created_at'' @ [LF] @
     [dquote] @ ''ABCDE124'' @ [dquote, comma, dquote] @
     [CHR ''A'', dquote, dquote, comma, CHR ''B''] @ [dquote, comma, dquote, dquote, comma, dquote] @
     ''09:10-09:20'' @ [dquote, comma, dquote] @ ''2025-10-31-001'' @ [dquote, comma, dquote] @
     ''2025-10-31T08:05Z'' @ [dquote]"
proof -
  have "[ticket_quote] \<noteq> []" by simp
  with exportCSV_schema [of hhmm_ex "[ticket_quote]"]
  have "exportCSV hhmm_ex [ticket_quote] =
      header_line @ concat (map (\<lambda>t. LF # csv_line hhmm_ex t) [ticket_quote])"
    by blast
  then show ?thesis
    by (simp add: csv_line_ticket_quote header_line_def)
qed

text \<open>
  The claim as first stated includes the empty ticket list. \<^verbatim>\<open>toCSV\<close> returns the empty
  string for it, which does not begin with the header line.
\<close>

theorem exportCSV_empty_list:
  "exportCSV hhmm_ex [] = [] \<and>
   take (length header_line) (exportCSV hhmm_ex []) \<noteq> header_line"
  by (simp add: exportCSV_empty header_line_def)


section \<open>Reading data lines\<close>








section \<open>Reading a text\<close>









section \<open>Import with an empty slot list\<close>











section \<open>Import replaces the ticket list\<close>











section \<open>Reading back an exported list\<close>








section \<open>The round trip of export and import\<close>





end
